theory Spec2Isabelle
  imports Complex_Main
begin

section \<open>Python values and runtime helpers\<close>

text \<open>
  The pipeline (\<^verbatim>\<open>mindmap_pipeline.py\<close>) and its service wrapper
  (\<^verbatim>\<open>services/ai_pipeline.py\<close>) are embedded function by function.
  Python strings are lists of code points; a \<^typ>\<open>char\<close> stands for a code point
  below 256. The value that \<^verbatim>\<open>response.json()\<close> decodes is a \<open>json\<close>
  value; Python \<^verbatim>\<open>int\<close> and \<^verbatim>\<open>float\<close> numbers are both \<open>JNum\<close>
  (no source branch tells them apart). What the code prints to standard output is not
  part of the model.
\<close>

datatype json =
    JNull
  | JBool bool
  | JNum real
  | JStr string
  | JList "json list"
  | JDict "(string \<times> json) list"

text \<open>The exceptions that the modelled code can meet; all derive from \<^verbatim>\<open>Exception\<close>.\<close>

datatype error =
    RequestException
  | JSONDecodeError
  | TypeError
  | KeyError
  | IndexError
  | ValueError
  | OSError

text \<open>
  What one \<^verbatim>\<open>requests.post\<close> call does: it raises, or it returns a response with a
  status code and a body; the body is \<open>None\<close> when \<^verbatim>\<open>response.json()\<close> would
  raise (the payload is not JSON).
\<close>

datatype http_outcome = Raised | Response int "json option"

record request =
  req_url :: string
  req_headers :: "(string \<times> string) list"
  req_json :: json

text \<open>A child node \<^verbatim>\<open>{"node": ..., "children": [...]}\<close> and the document dictionary.
  A key that the dictionary does not hold is \<open>None\<close>.\<close>

record node =
  node_name :: json
  node_children :: "json list"

record mindmap =
  root :: string
  children :: "node list"
  generated_at :: "string option"
  source_text_length :: "int option"
  ai_processed :: "bool option"
  fallback_mode :: "bool option"

text \<open>
  Everything outside the repository that the code calls is a field of \<open>world\<close>:
  the remote endpoints (the outcome of the \<open>i\<close>-th call, given its request), the
  random generator behind \<^verbatim>\<open>np.random.rand\<close>, scikit-learn's
  \<^verbatim>\<open>KMeans(n_clusters=k, ...).fit_predict(X)\<close>, Python's \<^verbatim>\<open>>\<close> on
  decoded values (used by \<^verbatim>\<open>max\<close>), \<^verbatim>\<open>str()\<close> of a decoded value that is
  not a string, the clock, and whether a path can be opened for writing.
\<close>

record world =
  post :: "nat \<Rightarrow> request \<Rightarrow> http_outcome"
  rand :: "nat \<Rightarrow> real"
  KMeans_fit_predict :: "int \<Rightarrow> json list \<Rightarrow> error + int list"
  py_gt :: "json \<Rightarrow> json \<Rightarrow> error + bool"
  py_format :: "json \<Rightarrow> string"
  utcnow_isoformat :: string
  open_w :: "string \<Rightarrow> bool"

text \<open>The effects of a run: the requests sent so far (oldest first), the number of
  random floats drawn, and the files written.\<close>

record state =
  calls :: "request list"
  draws :: nat
  saved :: "(string \<times> mindmap) list"

record pipeline =
  hf_token :: "string option"

definition headers :: "pipeline \<Rightarrow> (string \<times> string) list" where
  "headers p = (case hf_token p of
       None \<Rightarrow> []
     | Some t \<Rightarrow> if t = [] then [] else [(''Authorization'', ''Bearer '' @ t)])"

definition embedding_url :: string where
  "embedding_url = ''https://api-inference.huggingface.co/models/sentence-transformers/all-MiniLM-L6-v2''"

definition classification_url :: string where
  "classification_url = ''https://api-inference.huggingface.co/models/facebook/bart-large-mnli''"

definition summarization_url :: string where
  "summarization_url = ''https://api-inference.huggingface.co/models/facebook/bart-large-cnn''"

definition ner_url :: string where
  "ner_url = ''https://api-inference.huggingface.co/models/dslim/bert-base-NER''"

text \<open>\<^verbatim>\<open>requests.post(url, headers=self.headers, json=payload)\<close>: the request joins
  the trace and the world answers.\<close>

definition requests_post :: "world \<Rightarrow> state \<Rightarrow> request \<Rightarrow> http_outcome \<times> state" where
  "requests_post w s r = (post w (length (calls s)) r, s\<lparr>calls := calls s @ [r]\<rparr>)"

text \<open>\<^verbatim>\<open>xs[:n]\<close>: a negative bound counts from the end.\<close>

definition slice_to :: "'a list \<Rightarrow> int \<Rightarrow> 'a list" where
  "slice_to xs n =
     (if 0 \<le> n then take (nat n) xs else take (nat (int (length xs) + n)) xs)"

text \<open>\<^verbatim>\<open>len(x)\<close> of a decoded value.\<close>

definition py_len :: "json \<Rightarrow> error + int" where
  "py_len v = (case v of
       JStr s \<Rightarrow> Inr (int (length s))
     | JList xs \<Rightarrow> Inr (int (length xs))
     | JDict d \<Rightarrow> Inr (int (length d))
     | _ \<Rightarrow> Inl TypeError)"

text \<open>\<^verbatim>\<open>x[key]\<close> with a string key: only a dictionary accepts it.\<close>

definition getitem :: "json \<Rightarrow> string \<Rightarrow> error + json" where
  "getitem v k = (case v of
       JDict d \<Rightarrow> (case map_of d k of Some x \<Rightarrow> Inr x | None \<Rightarrow> Inl KeyError)
     | _ \<Rightarrow> Inl TypeError)"

section \<open>Summarizer\<close>

text \<open>\<^verbatim>\<open>text[:max_length] + "..."\<close>: a list or a dictionary cannot be joined with
  a string.\<close>

definition truncated :: "json \<Rightarrow> int \<Rightarrow> error + json" where
  "truncated v max_length = (case v of
       JStr s \<Rightarrow> Inr (JStr (slice_to s max_length @ ''...''))
     | _ \<Rightarrow> Inl TypeError)"

definition summarization_request :: "pipeline \<Rightarrow> json \<Rightarrow> int \<Rightarrow> request" where
  "summarization_request p v max_length =
     \<lparr>req_url = summarization_url, req_headers = headers p,
      req_json = JDict [(''inputs'', v),
        (''parameters'', JDict [(''max_length'', JNum (of_int max_length)),
                                (''min_length'', JNum 10)])]\<rparr>"

text \<open>The body of the \<^verbatim>\<open>try\<close> block of \<^verbatim>\<open>summarize_text\<close>, given the outcome of the
  call: \<open>Inl\<close> is an exception raised inside the block.\<close>

definition summarize_try :: "http_outcome \<Rightarrow> json \<Rightarrow> int \<Rightarrow> error + json" where
  "summarize_try outcome v max_length = (case outcome of
       Raised \<Rightarrow> Inl RequestException
     | Response status_code payload \<Rightarrow>
         if status_code = 200 then
           (case payload of
              None \<Rightarrow> Inl JSONDecodeError
            | Some result \<Rightarrow>
                (case result of
                   JList (first # rest) \<Rightarrow> getitem first ''summary_text''
                 | _ \<Rightarrow> truncated v max_length))
         else truncated v max_length)"

definition summarize_text ::
  "pipeline \<Rightarrow> world \<Rightarrow> state \<Rightarrow> json \<Rightarrow> int \<Rightarrow> (error + json) \<times> state" where
  "summarize_text p w s v max_length = (case py_len v of
       Inl e \<Rightarrow> (Inl e, s)
     | Inr n \<Rightarrow>
         if n \<le> max_length then (Inr v, s)
         else
           (case requests_post w s (summarization_request p v max_length) of
              (outcome, s') \<Rightarrow>
                (case summarize_try outcome v max_length of
                   Inr r \<Rightarrow> (Inr r, s')
                 | Inl e \<Rightarrow> (truncated v max_length, s'))))"

section \<open>Embedder\<close>

text \<open>\<^verbatim>\<open>np.random.rand(n).tolist()\<close>: the next \<open>n\<close> floats of the generator.\<close>

definition np_random_rand :: "world \<Rightarrow> state \<Rightarrow> nat \<Rightarrow> json \<times> state" where
  "np_random_rand w s n =
     (JList (map (\<lambda>i. JNum (rand w (draws s + i))) [0..<n]), s\<lparr>draws := draws s + n\<rparr>)"

definition embedding_request :: "pipeline \<Rightarrow> string \<Rightarrow> request" where
  "embedding_request p t =
     \<lparr>req_url = embedding_url, req_headers = headers p,
      req_json = JDict [(''inputs'', JStr t)]\<rparr>"

text \<open>One pass of the loop of \<^verbatim>\<open>get_embeddings\<close>: the entry appended for one phrase.
  The three places that append a random vector are the inner \<^verbatim>\<open>else\<close>, the outer
  \<^verbatim>\<open>else\<close> and the \<^verbatim>\<open>except\<close> handler (reached when the call or
  \<^verbatim>\<open>response.json()\<close> raises).\<close>

definition get_embeddings_body ::
  "pipeline \<Rightarrow> world \<Rightarrow> state \<Rightarrow> string \<Rightarrow> json \<times> state" where
  "get_embeddings_body p w s t =
     (case requests_post w s (embedding_request p t) of
        (outcome, s') \<Rightarrow>
          (case outcome of
             Raised \<Rightarrow> np_random_rand w s' 384
           | Response status_code payload \<Rightarrow>
               if status_code = 200 then
                 (case payload of
                    None \<Rightarrow> np_random_rand w s' 384
                  | Some embedding \<Rightarrow>
                      (case embedding of
                         JList (first # rest) \<Rightarrow> (first, s')
                       | _ \<Rightarrow> np_random_rand w s' 384))
               else np_random_rand w s' 384))"

fun get_embeddings_loop ::
  "pipeline \<Rightarrow> world \<Rightarrow> state \<Rightarrow> string list \<Rightarrow> json list \<Rightarrow> json list \<times> state" where
  "get_embeddings_loop p w s [] embeddings = (embeddings, s)"
| "get_embeddings_loop p w s (t # ts) embeddings =
     (case get_embeddings_body p w s t of
        (entry, s') \<Rightarrow> get_embeddings_loop p w s' ts (embeddings @ [entry]))"

text \<open>The shape that \<^verbatim>\<open>np.array\<close> finds for a nested list: a list whose elements all
  have the shape \<open>sh\<close> has the shape \<open>len # sh\<close>; an empty list has the shape \<open>[0]\<close>;
  anything that is not a list (a number, a string, a boolean, \<^verbatim>\<open>None\<close>, a dictionary)
  is a scalar. \<open>None\<close> means that the elements disagree (a ragged list).\<close>

fun shape :: "json \<Rightarrow> nat list option" where
  "shape (JList []) = Some [0]"
| "shape (JList (x # xs)) =
     (case shape x of
        None \<Rightarrow> None
      | Some sh \<Rightarrow>
          if list_all (\<lambda>y. shape y = Some sh) xs then Some (Suc (length xs) # sh) else None)"
| "shape JNull = Some []"
| "shape (JBool b) = Some []"
| "shape (JNum r) = Some []"
| "shape (JStr t) = Some []"
| "shape (JDict d) = Some []"

text \<open>\<^verbatim>\<open>np.array(rows)\<close> (numpy 1.24 and later): a ragged list raises
  \<^verbatim>\<open>ValueError\<close>. The array is modelled by the list of its rows (its first axis), so
  \<^verbatim>\<open>len\<close> of the array is the length of that list.\<close>

definition np_array :: "json list \<Rightarrow> error + json list" where
  "np_array rows = (case shape (JList rows) of None \<Rightarrow> Inl ValueError | Some sh \<Rightarrow> Inr rows)"

text \<open>The conversion \<^verbatim>\<open>return np.array(embeddings)\<close> stands after the loop, outside
  every \<^verbatim>\<open>try\<close>: its exception leaves \<^verbatim>\<open>get_embeddings\<close>.\<close>

definition get_embeddings ::
  "pipeline \<Rightarrow> world \<Rightarrow> state \<Rightarrow> string list \<Rightarrow> (error + json list) \<times> state" where
  "get_embeddings p w s texts =
     (case get_embeddings_loop p w s texts [] of
        (embeddings, s') \<Rightarrow> (np_array embeddings, s'))"

section \<open>Clusterer\<close>

definition cluster_embeddings ::
  "world \<Rightarrow> json list \<Rightarrow> int option \<Rightarrow> error + (int list \<times> int)" where
  "cluster_embeddings w embeddings n_clusters =
     (let len = int (length embeddings);
          n1 = (case n_clusters of
                  None \<Rightarrow> (let max_clusters = min 10 (max 2 (len div 2))
                            in max 2 (min max_clusters len))
                | Some k \<Rightarrow> k);
          n2 = (if len < n1 then len else n1)
      in case KMeans_fit_predict w n2 embeddings of
           Inl e \<Rightarrow> Inl e
         | Inr cluster_labels \<Rightarrow> Inr (cluster_labels, n2))"

section \<open>Labeler\<close>

text \<open>\<^verbatim>\<open>str(n)\<close> of an integer, used by the f-strings.\<close>

definition digit :: "nat \<Rightarrow> char" where
  "digit d = ''0123456789'' ! d"

fun decimal :: "nat \<Rightarrow> string" where
  "decimal n =
     (if n < 10 then [digit n]
      else decimal (n div 10) @ [digit (n mod 10)])"

definition str_int :: "int \<Rightarrow> string" where
  "str_int i = (if i < 0 then CHR ''-'' # decimal (nat (- i)) else decimal (nat i))"

definition candidate_labels :: "string list" where
  "candidate_labels =
     [''Business'', ''Technology'', ''Marketing'', ''Finance'', ''Education'',
      ''Health'', ''Entertainment'', ''Travel'', ''Food'', ''Sports'',
      ''Science'', ''Art'', ''Music'', ''Politics'', ''Environment'']"

definition classification_request :: "pipeline \<Rightarrow> string \<Rightarrow> request" where
  "classification_request p cluster_text =
     \<lparr>req_url = classification_url, req_headers = headers p,
      req_json = JDict [(''inputs'', JStr cluster_text),
        (''parameters'', JDict [(''candidate_labels'', JList (map JStr candidate_labels))])]\<rparr>"

text \<open>\<^verbatim>\<open>max(result, key=lambda x: x['score'])\<close> after its first element: a later
  element replaces the best one only when its key is greater.\<close>

fun max_by_score :: "world \<Rightarrow> json \<Rightarrow> json \<Rightarrow> json list \<Rightarrow> error + json" where
  "max_by_score w best best_key [] = Inr best"
| "max_by_score w best best_key (x # xs) =
     (case getitem x ''score'' of
        Inl e \<Rightarrow> Inl e
      | Inr k \<Rightarrow>
          (case py_gt w k best_key of
             Inl e \<Rightarrow> Inl e
           | Inr is_gt \<Rightarrow>
               if is_gt then max_by_score w x k xs else max_by_score w best best_key xs))"

definition fallback_label :: "nat \<Rightarrow> json" where
  "fallback_label i = JStr (''Cluster '' @ str_int (int i + 1))"

text \<open>The body of the \<^verbatim>\<open>try\<close> block of \<^verbatim>\<open>classify_clusters\<close> for the cluster at
  index \<open>i\<close>.\<close>

definition classify_try :: "world \<Rightarrow> http_outcome \<Rightarrow> nat \<Rightarrow> error + json" where
  "classify_try w outcome i = (case outcome of
       Raised \<Rightarrow> Inl RequestException
     | Response status_code payload \<Rightarrow>
         if status_code = 200 then
           (case payload of
              None \<Rightarrow> Inl JSONDecodeError
            | Some result \<Rightarrow>
                (case result of
                   JList (first # rest) \<Rightarrow>
                     (case getitem first ''score'' of
                        Inl e \<Rightarrow> Inl e
                      | Inr k \<Rightarrow>
                          (case max_by_score w first k rest of
                             Inl e \<Rightarrow> Inl e
                           | Inr best_label \<Rightarrow> getitem best_label ''label''))
                 | _ \<Rightarrow> Inr (fallback_label i)))
         else Inr (fallback_label i))"

fun classify_loop ::
  "pipeline \<Rightarrow> world \<Rightarrow> state \<Rightarrow> nat \<Rightarrow> string list \<Rightarrow> json list \<Rightarrow> json list \<times> state" where
  "classify_loop p w s i [] classified_labels = (classified_labels, s)"
| "classify_loop p w s i (cluster_text # rest) classified_labels =
     (case requests_post w s (classification_request p cluster_text) of
        (outcome, s') \<Rightarrow>
          (case classify_try w outcome i of
             Inr l \<Rightarrow> classify_loop p w s' (Suc i) rest (classified_labels @ [l])
           | Inl e \<Rightarrow> classify_loop p w s' (Suc i) rest (classified_labels @ [fallback_label i])))"

definition classify_clusters ::
  "pipeline \<Rightarrow> world \<Rightarrow> state \<Rightarrow> string list \<Rightarrow> string list \<Rightarrow> json list \<times> state" where
  "classify_clusters p w s cluster_texts cluster_labels = classify_loop p w s 0 cluster_texts []"

section \<open>EntityExtractor\<close>

fun starts_with :: "string \<Rightarrow> string \<Rightarrow> bool" where
  "starts_with [] cs = True"
| "starts_with (k # ks) [] = False"
| "starts_with (k # ks) (c # cs) = (k = c \<and> starts_with ks cs)"

fun substring_of :: "string \<Rightarrow> string \<Rightarrow> bool" where
  "substring_of k [] = (k = [])"
| "substring_of k (c # cs) = (starts_with k (c # cs) \<or> substring_of k cs)"

text \<open>\<^verbatim>\<open>key in item\<close> for a string key: a key of a dictionary, a substring of a
  string, an element of a list; any other value is not iterable.\<close>

definition contains_str :: "string \<Rightarrow> json \<Rightarrow> error + bool" where
  "contains_str k v = (case v of
       JDict d \<Rightarrow> Inr (map_of d k \<noteq> None)
     | JStr s \<Rightarrow> Inr (substring_of k s)
     | JList xs \<Rightarrow> Inr (List.member xs (JStr k))
     | _ \<Rightarrow> Inl TypeError)"

record entity =
  entity_text :: json
  entity_label :: json

definition ner_request :: "pipeline \<Rightarrow> string \<Rightarrow> request" where
  "ner_request p t =
     \<lparr>req_url = ner_url, req_headers = headers p, req_json = JDict [(''inputs'', JStr t)]\<rparr>"

fun extract_entities_loop :: "json list \<Rightarrow> entity list \<Rightarrow> error + entity list" where
  "extract_entities_loop [] entities = Inr entities"
| "extract_entities_loop (item # items) entities =
     (case contains_str ''entity'' item of
        Inl e \<Rightarrow> Inl e
      | Inr has_entity \<Rightarrow>
          if \<not> has_entity then extract_entities_loop items entities
          else
            (case contains_str ''word'' item of
               Inl e \<Rightarrow> Inl e
             | Inr has_word \<Rightarrow>
                 if \<not> has_word then extract_entities_loop items entities
                 else
                   (case getitem item ''word'' of
                      Inl e \<Rightarrow> Inl e
                    | Inr wd \<Rightarrow>
                        (case getitem item ''entity'' of
                           Inl e \<Rightarrow> Inl e
                         | Inr en \<Rightarrow>
                             extract_entities_loop items
                               (entities @ [\<lparr>entity_text = wd, entity_label = en\<rparr>])))))"

definition extract_entities ::
  "pipeline \<Rightarrow> world \<Rightarrow> state \<Rightarrow> string \<Rightarrow> entity list \<times> state" where
  "extract_entities p w s t =
     (case requests_post w s (ner_request p t) of
        (outcome, s') \<Rightarrow>
          (case outcome of
             Raised \<Rightarrow> ([], s')
           | Response status_code payload \<Rightarrow>
               if status_code = 200 then
                 (case payload of
                    None \<Rightarrow> ([], s')
                  | Some result \<Rightarrow>
                      (case result of
                         JList items \<Rightarrow>
                           (case extract_entities_loop items [] of
                              Inl e \<Rightarrow> ([], s')
                            | Inr entities \<Rightarrow> (entities, s'))
                       | _ \<Rightarrow> ([], s')))
               else ([], s')))"

section \<open>TreeAssembler\<close>

text \<open>\<^verbatim>\<open>xs[i]\<close>: a negative index counts from the end; out of range raises.\<close>

definition py_index :: "'a list \<Rightarrow> int \<Rightarrow> error + 'a" where
  "py_index xs i =
     (if 0 \<le> i \<and> i < int (length xs) then Inr (xs ! nat i)
      else if i < 0 \<and> - int (length xs) \<le> i then Inr (xs ! nat (int (length xs) + i))
      else Inl IndexError)"

text \<open>A Python dictionary of lists keeps its keys in insertion order:
  \<^verbatim>\<open>if k not in d: d[k] = []\<close> then \<^verbatim>\<open>d[k].append(v)\<close>.\<close>

fun dict_append ::
  "('k \<Rightarrow> 'k \<Rightarrow> bool) \<Rightarrow> ('k \<times> 'v list) list \<Rightarrow> 'k \<Rightarrow> 'v \<Rightarrow> ('k \<times> 'v list) list" where
  "dict_append eq [] k v = [(k, [v])]"
| "dict_append eq ((k', vs) # d) k v =
     (if eq k' k then (k', vs @ [v]) # d else (k', vs) # dict_append eq d k v)"

text \<open>Keys of a dictionary: lists and dictionaries are unhashable; \<^verbatim>\<open>True\<close> and
  \<^verbatim>\<open>1\<close> are the same key.\<close>

definition hashable :: "json \<Rightarrow> bool" where
  "hashable v = (case v of JList xs \<Rightarrow> False | JDict d \<Rightarrow> False | _ \<Rightarrow> True)"

definition as_number :: "json \<Rightarrow> real option" where
  "as_number v = (case v of
       JBool b \<Rightarrow> Some (if b then 1 else 0)
     | JNum r \<Rightarrow> Some r
     | _ \<Rightarrow> None)"

definition key_eq :: "json \<Rightarrow> json \<Rightarrow> bool" where
  "key_eq a b = (case as_number a of
       Some x \<Rightarrow> (case as_number b of Some y \<Rightarrow> x = y | None \<Rightarrow> False)
     | None \<Rightarrow> (case as_number b of Some y \<Rightarrow> False | None \<Rightarrow> a = b))"

text \<open>The value interpolated by an f-string.\<close>

definition format_value :: "world \<Rightarrow> json \<Rightarrow> string" where
  "format_value w v = (case v of
       JStr s \<Rightarrow> s
     | JNull \<Rightarrow> ''None''
     | JBool b \<Rightarrow> (if b then ''True'' else ''False'')
     | _ \<Rightarrow> py_format w v)"

definition group_clusters :: "string list \<Rightarrow> int list \<Rightarrow> (int \<times> string list) list" where
  "group_clusters texts cluster_labels =
     foldl (\<lambda>clusters (t, cluster_id). dict_append (=) clusters cluster_id t) []
       (zip texts cluster_labels)"

fun cluster_children_loop ::
  "pipeline \<Rightarrow> world \<Rightarrow> state \<Rightarrow> string list \<Rightarrow> json list \<Rightarrow> (error + json list) \<times> state" where
  "cluster_children_loop p w s [] cluster_children = (Inr cluster_children, s)"
| "cluster_children_loop p w s (t # ts) cluster_children =
     (if int (length t) > 50 then
        (case summarize_text p w s (JStr t) 50 of
           (Inl e, s') \<Rightarrow> (Inl e, s')
         | (Inr r, s') \<Rightarrow> cluster_children_loop p w s' ts (cluster_children @ [r]))
      else cluster_children_loop p w s ts (cluster_children @ [JStr t]))"

fun merge_clusters_loop ::
  "pipeline \<Rightarrow> world \<Rightarrow> state \<Rightarrow> json list \<Rightarrow> (int \<times> string list) list \<Rightarrow> node list
     \<Rightarrow> (error + node list) \<times> state" where
  "merge_clusters_loop p w s classified_labels [] nodes = (Inr nodes, s)"
| "merge_clusters_loop p w s classified_labels ((cluster_id, cluster_texts) # items) nodes =
     (if cluster_id < int (length classified_labels) then
        (case py_index classified_labels cluster_id of
           Inl e \<Rightarrow> (Inl e, s)
         | Inr cluster_name \<Rightarrow>
             (case py_len cluster_name of
                Inl e \<Rightarrow> (Inl e, s)
              | Inr n \<Rightarrow>
                  (case (if n > 30 then summarize_text p w s cluster_name 30
                         else (Inr cluster_name, s)) of
                     (Inl e, s1) \<Rightarrow> (Inl e, s1)
                   | (Inr cluster_name', s1) \<Rightarrow>
                       (case cluster_children_loop p w s1 (take 5 cluster_texts) [] of
                          (Inl e, s2) \<Rightarrow> (Inl e, s2)
                        | (Inr cluster_children, s2) \<Rightarrow>
                            merge_clusters_loop p w s2 classified_labels items
                              (nodes @ [\<lparr>node_name = cluster_name',
                                         node_children = cluster_children\<rparr>])))))
      else merge_clusters_loop p w s classified_labels items nodes)"

fun group_entities ::
  "entity list \<Rightarrow> (json \<times> json list) list \<Rightarrow> error + (json \<times> json list) list" where
  "group_entities [] entity_clusters = Inr entity_clusters"
| "group_entities (e # es) entity_clusters =
     (if hashable (entity_label e)
      then group_entities es
             (dict_append key_eq entity_clusters (entity_label e) (entity_text e))
      else Inl TypeError)"

definition entity_nodes :: "world \<Rightarrow> (json \<times> json list) list \<Rightarrow> node list" where
  "entity_nodes w entity_clusters =
     map (\<lambda>(l, entity_texts).
            \<lparr>node_name = JStr (''Entities ('' @ format_value w l @ '')''),
             node_children = take 5 entity_texts\<rparr>) entity_clusters"

definition merge_results ::
  "pipeline \<Rightarrow> world \<Rightarrow> state \<Rightarrow> string list \<Rightarrow> int list \<Rightarrow> json list \<Rightarrow> entity list
     \<Rightarrow> (error + mindmap) \<times> state" where
  "merge_results p w s texts cluster_labels classified_labels entities =
     (case merge_clusters_loop p w s classified_labels
             (group_clusters texts cluster_labels) [] of
        (Inl e, s') \<Rightarrow> (Inl e, s')
      | (Inr nodes, s') \<Rightarrow>
          (case (if entities \<noteq> [] then group_entities entities [] else Inr []) of
             Inl e \<Rightarrow> (Inl e, s')
           | Inr entity_clusters \<Rightarrow>
               (Inr \<lparr>root = ''Mind Map'',
                     children = nodes @ entity_nodes w entity_clusters,
                     generated_at = None, source_text_length = None,
                     ai_processed = None, fallback_mode = None\<rparr>, s')))"

section \<open>Segmenter\<close>

text \<open>The code points below 256 that \<^verbatim>\<open>str.strip()\<close> removes and that \<^verbatim>\<open>\s\<close>
  matches.\<close>

definition is_space :: "char \<Rightarrow> bool" where
  "is_space c =
     (let n = (of_char c :: nat)
      in (9 \<le> n \<and> n \<le> 13) \<or> (28 \<le> n \<and> n \<le> 32) \<or> n = 133 \<or> n = 160)"

definition strip :: "string \<Rightarrow> string" where
  "strip s = rev (dropWhile is_space (rev (dropWhile is_space s)))"

text \<open>\<^verbatim>\<open>re.sub(r'\s+', ' ', s)\<close>: every maximal run of whitespace becomes one space.
  The flag says that the previous character belonged to a run.\<close>

fun collapse_ws :: "bool \<Rightarrow> string \<Rightarrow> string" where
  "collapse_ws in_run [] = []"
| "collapse_ws in_run (c # cs) =
     (if is_space c then
        (if in_run then collapse_ws True cs else CHR '' '' # collapse_ws True cs)
      else c # collapse_ws False cs)"

text \<open>\<^verbatim>\<open>re.split(pattern, s)\<close> for a pattern that never matches the empty string.
  The matcher looks at the rest of the string and answers \<open>Some n\<close> when the pattern
  matches \<open>n + 1\<close> characters there.\<close>

function re_split :: "(string \<Rightarrow> nat option) \<Rightarrow> string \<Rightarrow> string \<Rightarrow> string list" where
  "re_split m piece [] = [piece]"
| "re_split m piece (c # cs) =
     (case m (c # cs) of
        Some n \<Rightarrow> piece # re_split m [] (drop n cs)
      | None \<Rightarrow> re_split m (piece @ [c]) cs)"
  by pat_completeness auto
termination
  by (relation "measure (\<lambda>(m, piece, s). length s)") auto

definition is_terminator :: "char \<Rightarrow> bool" where
  "is_terminator c = (c = CHR ''.'' \<or> c = CHR ''!'' \<or> c = CHR ''?'')"

text \<open>The pattern \<^verbatim>\<open>[.!?]+\<close>.\<close>

definition match_terminators :: "string \<Rightarrow> nat option" where
  "match_terminators s = (case takeWhile is_terminator s of
       [] \<Rightarrow> None
     | t # ts \<Rightarrow> Some (length ts))"

text \<open>The pattern \<^verbatim>\<open>[,;]|\s+and\s+\<close>. Both whitespace runs are greedy, and a
  shorter first run cannot be followed by \<^verbatim>\<open>and\<close>.\<close>

definition match_separator :: "string \<Rightarrow> nat option" where
  "match_separator s = (case s of
       [] \<Rightarrow> None
     | c # cs \<Rightarrow>
         if c = CHR '','' \<or> c = CHR '';'' then Some 0
         else
           (let ws1 = takeWhile is_space s; r1 = dropWhile is_space s in
            if ws1 \<noteq> [] \<and> take 3 r1 = ''and'' then
              (let ws2 = takeWhile is_space (drop 3 r1) in
               if ws2 \<noteq> [] then Some (length ws1 + 3 + length ws2 - 1) else None)
            else None))"

definition preprocess_text :: "string \<Rightarrow> string list" where
  "preprocess_text t =
     (let t' = collapse_ws False (strip t);
          sentences = re_split match_terminators [] t';
          sentences' = map strip (filter (\<lambda>x. length (strip x) > 10) sentences)
      in concat (map (\<lambda>sentence.
                   map strip (filter (\<lambda>x. length (strip x) > 5)
                     (re_split match_separator [] sentence))) sentences'))"

section \<open>PipelineOrchestrator\<close>

text \<open>\<^verbatim>\<open>[phrases[j] for j in range(len(phrases)) if cluster_labels[j] == i]\<close>, from
  index \<open>j\<close> on.\<close>

fun cluster_members :: "int list \<Rightarrow> int \<Rightarrow> nat \<Rightarrow> string list \<Rightarrow> error + string list" where
  "cluster_members cluster_labels i j [] = Inr []"
| "cluster_members cluster_labels i j (ph # phs) =
     (case py_index cluster_labels (int j) of
        Inl e \<Rightarrow> Inl e
      | Inr l \<Rightarrow>
          (case cluster_members cluster_labels i (Suc j) phs of
             Inl e \<Rightarrow> Inl e
           | Inr r \<Rightarrow> Inr (if l = i then ph # r else r)))"

text \<open>\<^verbatim>\<open>max(cluster_texts, key=len)\<close> after its first element: the first of the
  longest.\<close>

fun longest :: "string \<Rightarrow> string list \<Rightarrow> string" where
  "longest best [] = best"
| "longest best (x # xs) = (if length x > length best then longest x xs else longest best xs)"

fun representatives ::
  "string list \<Rightarrow> int list \<Rightarrow> nat list \<Rightarrow> string list \<Rightarrow> error + string list" where
  "representatives phrases cluster_labels [] reps = Inr reps"
| "representatives phrases cluster_labels (i # is) reps =
     (case cluster_members cluster_labels (int i) 0 phrases of
        Inl e \<Rightarrow> Inl e
      | Inr cluster_texts \<Rightarrow>
          (case cluster_texts of
             [] \<Rightarrow> representatives phrases cluster_labels is (reps @ [[]])
           | x # xs \<Rightarrow> representatives phrases cluster_labels is (reps @ [longest x xs])))"

text \<open>\<^verbatim>\<open>with open(output_file, 'w', ...) as f: json.dump(mindmap, f, ...)\<close>:
  \<^verbatim>\<open>open(None, 'w')\<close> raises \<^verbatim>\<open>TypeError\<close>.\<close>

definition save_mindmap ::
  "world \<Rightarrow> state \<Rightarrow> string option \<Rightarrow> mindmap \<Rightarrow> (error + unit) \<times> state" where
  "save_mindmap w s output_file m = (case output_file of
       None \<Rightarrow> (Inl TypeError, s)
     | Some path \<Rightarrow>
         if open_w w path then (Inr (), s\<lparr>saved := saved s @ [(path, m)]\<rparr>)
         else (Inl OSError, s))"

definition process_text ::
  "pipeline \<Rightarrow> world \<Rightarrow> state \<Rightarrow> string \<Rightarrow> string option \<Rightarrow> (error + mindmap) \<times> state" where
  "process_text p w s t output_file =
     (let phrases = preprocess_text t in
      case get_embeddings p w s phrases of
        (Inl e, s1) \<Rightarrow> (Inl e, s1)
      | (Inr embeddings, s1) \<Rightarrow>
          (case cluster_embeddings w embeddings None of
             Inl e \<Rightarrow> (Inl e, s1)
           | Inr (cluster_labels, n_clusters) \<Rightarrow>
               (case representatives phrases cluster_labels [0..<nat n_clusters] [] of
                  Inl e \<Rightarrow> (Inl e, s1)
                | Inr cluster_representatives \<Rightarrow>
                    (case classify_clusters p w s1 cluster_representatives
                            (map (\<lambda>i. ''Cluster '' @ str_int (int i + 1)) [0..<nat n_clusters]) of
                       (classified_labels, s2) \<Rightarrow>
                         (case extract_entities p w s2 t of
                            (entities, s3) \<Rightarrow>
                              (case merge_results p w s3 phrases cluster_labels
                                      classified_labels entities of
                                 (Inl e, s4) \<Rightarrow> (Inl e, s4)
                               | (Inr m, s4) \<Rightarrow>
                                   (case save_mindmap w s4 output_file m of
                                      (Inl e, s5) \<Rightarrow> (Inl e, s5)
                                    | (Inr u, s5) \<Rightarrow> (Inr m, s5))))))))"

section \<open>The service wrapper\<close>

text \<open>\<^verbatim>\<open>text.split('.')\<close>.\<close>

fun split_on :: "char \<Rightarrow> string \<Rightarrow> string \<Rightarrow> string list" where
  "split_on sep piece [] = [piece]"
| "split_on sep piece (c # cs) =
     (if c = sep then piece # split_on sep [] cs else split_on sep (piece @ [c]) cs)"

text \<open>\<^verbatim>\<open>range(0, stop, step)\<close> for a positive step.\<close>

definition range_step :: "nat \<Rightarrow> nat \<Rightarrow> nat list" where
  "range_step stop step = map (\<lambda>k. k * step) [0..<(stop + step - 1) div step]"

fun fallback_loop :: "string list \<Rightarrow> nat \<Rightarrow> nat list \<Rightarrow> node list \<Rightarrow> node list" where
  "fallback_loop sentences chunk_size [] clusters = clusters"
| "fallback_loop sentences chunk_size (i # is) clusters =
     (let chunk = take chunk_size (drop i sentences) in
      if chunk \<noteq> [] then
        fallback_loop sentences chunk_size is
          (clusters @ [\<lparr>node_name = JStr (''Topic '' @ str_int (int (length clusters) + 1)),
                        node_children = map JStr (take 5 chunk)\<rparr>])
      else fallback_loop sentences chunk_size is clusters)"

definition create_fallback_mindmap :: "world \<Rightarrow> string \<Rightarrow> mindmap" where
  "create_fallback_mindmap w t =
     (let sentences = map strip (filter (\<lambda>x. strip x \<noteq> []) (split_on CHR ''.'' [] t));
          chunk_size = max 1 (length sentences div 3);
          clusters = fallback_loop sentences chunk_size
                       (range_step (length sentences) chunk_size) []
      in \<lparr>root = ''Mind Map'', children = clusters,
          generated_at = Some (utcnow_isoformat w),
          source_text_length = Some (int (length t)),
          ai_processed = Some False, fallback_mode = Some True\<rparr>)"

text \<open>The \<^verbatim>\<open>try\<close> block returns the result of the pipeline with its metadata; the
  handler \<^verbatim>\<open>except Exception\<close> catches every error of the block and returns the
  fallback. The value returned by \<^verbatim>\<open>process_text\<close> is always a dictionary, so the
  \<^verbatim>\<open>isinstance\<close> check passes.\<close>

definition process_text_to_mindmap ::
  "pipeline \<Rightarrow> world \<Rightarrow> state \<Rightarrow> string \<Rightarrow> (error + mindmap) \<times> state" where
  "process_text_to_mindmap p w s t =
     (case process_text p w s t None of
        (Inr mindmap_data, s') \<Rightarrow>
          (Inr (mindmap_data\<lparr>generated_at := Some (utcnow_isoformat w),
                             source_text_length := Some (int (length t)),
                             ai_processed := Some True\<rparr>), s')
      | (Inl e, s') \<Rightarrow> (Inr (create_fallback_mindmap w t), s'))"

section \<open>Notions of the specification\<close>

text \<open>A failed summarization call: the call raised, the status is not 200, or the
  response is malformed or empty (not JSON, not a list, an empty list, or a first element
  without \<^verbatim>\<open>summary_text\<close>).\<close>

definition summarization_failed :: "http_outcome \<Rightarrow> bool" where
  "summarization_failed outcome = (case outcome of
       Raised \<Rightarrow> True
     | Response status_code payload \<Rightarrow>
         status_code \<noteq> 200 \<or>
         (case payload of
            None \<Rightarrow> True
          | Some result \<Rightarrow>
              (case result of
                 JList (first # rest) \<Rightarrow>
                   (case getitem first ''summary_text'' of Inl e \<Rightarrow> True | Inr v \<Rightarrow> False)
               | _ \<Rightarrow> True)))"

text \<open>A failed embedding call: the call raised, the status is not 200, or the body is
  malformed or empty (not JSON, not a list, or an empty list).\<close>

definition embedding_call_failed :: "http_outcome \<Rightarrow> bool" where
  "embedding_call_failed outcome = (case outcome of
       Raised \<Rightarrow> True
     | Response status_code payload \<Rightarrow>
         status_code \<noteq> 200 \<or>
         (case payload of
            None \<Rightarrow> True
          | Some embedding \<Rightarrow>
              (case embedding of JList (first # rest) \<Rightarrow> False | _ \<Rightarrow> True)))"

definition is_number :: "json \<Rightarrow> bool" where
  "is_number v = (case v of JNum r \<Rightarrow> True | _ \<Rightarrow> False)"

text \<open>A vector of \<open>n\<close> numbers.\<close>

definition is_vector :: "nat \<Rightarrow> json \<Rightarrow> bool" where
  "is_vector n v = (case v of JList xs \<Rightarrow> length xs = n \<and> list_all is_number xs | _ \<Rightarrow> False)"

text \<open>The two response shapes that the specification calls well-formed: a flat vector
  of 384 numbers, or a list whose only element is one.\<close>

definition well_formed_embedding_body :: "json \<Rightarrow> bool" where
  "well_formed_embedding_body v =
     (is_vector 384 v \<or> (case v of JList [x] \<Rightarrow> is_vector 384 x | _ \<Rightarrow> False))"

text \<open>The values of a list in the order in which they are first met, two values being
  the same when \<open>eq\<close> says so; \<open>seen\<close> holds the values met so far.\<close>

fun first_seen_by :: "('a \<Rightarrow> 'a \<Rightarrow> bool) \<Rightarrow> 'a list \<Rightarrow> 'a list \<Rightarrow> 'a list" where
  "first_seen_by eq seen [] = seen"
| "first_seen_by eq seen (x # xs) =
     (if list_ex (\<lambda>y. eq y x) seen then first_seen_by eq seen xs
      else first_seen_by eq (seen @ [x]) xs)"

text \<open>A child node made from one cluster \<open>(cluster_id, cluster_texts)\<close>: its name is
  the label at index \<open>cluster_id\<close> passed through the Summarizer with target 30, and
  its children are the first five member phrases, each passed through the Summarizer with
  target 50 (the Summarizer returns a short string unchanged).\<close>

definition node_of_cluster ::
  "pipeline \<Rightarrow> world \<Rightarrow> json list \<Rightarrow> node \<Rightarrow> int \<times> string list \<Rightarrow> bool" where
  "node_of_cluster p w classified_labels nd item =
     (\<exists>l. py_index classified_labels (fst item) = Inr l
        \<and> (\<exists>s1 s2. summarize_text p w s1 l 30 = (Inr (node_name nd), s2))
        \<and> list_all2 (\<lambda>child t. \<exists>s1 s2. summarize_text p w s1 (JStr t) 50 = (Inr child, s2))
             (node_children nd) (take 5 (snd item)))"

section \<open>Sample worlds\<close>

text \<open>Stand-ins for the outside world, used to run the model on concrete inputs. Their
  clustering call rejects fewer than one cluster and more clusters than points, and
  otherwise deals the points round-robin; their \<^verbatim>\<open>>\<close> compares numbers only.\<close>

definition sample_fit_predict :: "int \<Rightarrow> json list \<Rightarrow> error + int list" where
  "sample_fit_predict k X =
     (if k < 1 \<or> int (length X) < k then Inl ValueError
      else Inr (map (\<lambda>i. int i mod k) [0..<length X]))"

definition sample_gt :: "json \<Rightarrow> json \<Rightarrow> error + bool" where
  "sample_gt a b = (case a of
       JNum x \<Rightarrow> (case b of JNum y \<Rightarrow> Inr (y < x) | _ \<Rightarrow> Inl TypeError)
     | _ \<Rightarrow> Inl TypeError)"

definition sample_world :: "(nat \<Rightarrow> request \<Rightarrow> http_outcome) \<Rightarrow> world" where
  "sample_world answers =
     \<lparr>post = answers, rand = (\<lambda>i. 0), KMeans_fit_predict = sample_fit_predict,
      py_gt = sample_gt, py_format = (\<lambda>v. ''0.0''),
      utcnow_isoformat = ''2025-01-01T00:00:00'', open_w = (\<lambda>path. True)\<rparr>"

text \<open>Every remote call raises.\<close>

definition offline_world :: world where
  "offline_world = sample_world (\<lambda>i r. Raised)"


definition initial_state :: state where
  "initial_state = \<lparr>calls = [], draws = 0, saved = []\<rparr>"

definition public_pipeline :: pipeline where
  "public_pipeline = \<lparr>hf_token = None\<rparr>"

text \<open>The first call answers 200 with a flat vector of 384 numbers, every later call
  raises.\<close>

definition flat_then_down :: "nat \<Rightarrow> request \<Rightarrow> http_outcome" where
  "flat_then_down i r =
     (if i = 0 then Response 200 (Some (JList (replicate 384 (JNum 0.5)))) else Raised)"

definition sample_entities :: "entity list" where
  "sample_entities =
     [\<lparr>entity_text = JStr ''Paris'', entity_label = JStr ''LOC''\<rparr>,
      \<lparr>entity_text = JStr ''Ada'', entity_label = JStr ''PER''\<rparr>,
      \<lparr>entity_text = JStr ''Rome'', entity_label = JStr ''LOC''\<rparr>]"

section \<open>Summarizer: the truncation contract\<close>

lemma truncated_JStr: "truncated (JStr t) n = Inr (JStr (slice_to t n @ ''...''))"
  by (simp add: truncated_def)

lemma summarize_try_failed:
  assumes "summarization_failed outcome"
  shows "summarize_try outcome (JStr t) n = Inr (JStr (slice_to t n @ ''...''))
       \<or> (\<exists>e. summarize_try outcome (JStr t) n = Inl e)"
  using assms
  by (auto simp: summarization_failed_def summarize_try_def truncated_JStr
      split: http_outcome.splits option.splits json.splits list.splits sum.splits if_splits)

text \<open>
  Claim C8. For every string longer than \<open>max_length\<close>, when the remote
  summarization call fails (it raises, answers a status other than 200, or answers an
  empty or malformed body), \<^verbatim>\<open>summarize_text\<close> returns exactly
  \<^verbatim>\<open>text[:max_length] + "..."\<close>.
\<close>

theorem summarize_text_failure_truncates:
  assumes "max_length < int (length t)"
    and "summarization_failed
           (post w (length (calls s)) (summarization_request p (JStr t) max_length))"
  shows "fst (summarize_text p w s (JStr t) max_length)
           = Inr (JStr (slice_to t max_length @ ''...''))"
proof -
  let ?outcome = "post w (length (calls s)) (summarization_request p (JStr t) max_length)"
  have len: "py_len (JStr t) = Inr (int (length t))"
    by (simp add: py_len_def)
  from summarize_try_failed [OF assms(2)]
  consider "summarize_try ?outcome (JStr t) max_length
              = Inr (JStr (slice_to t max_length @ ''...''))"
    | e where "summarize_try ?outcome (JStr t) max_length = Inl e"
    by blast
  then show ?thesis
  proof cases
    case 1
    with assms(1) len show ?thesis
      by (simp add: summarize_text_def requests_post_def)
  next
    case 2
    with assms(1) len show ?thesis
      by (simp add: summarize_text_def requests_post_def truncated_JStr)
  qed
qed

text \<open>The case named by the claim: a string of 100 characters, \<open>max_length = 50\<close>, the
  call raising.\<close>

theorem summarize_text_failure_truncates_witness:
  "(50 :: int) < int (length (replicate 100 CHR ''a''))
   \<and> summarization_failed
       (post offline_world (length (calls initial_state))
          (summarization_request public_pipeline (JStr (replicate 100 CHR ''a'')) 50))
   \<and> fst (summarize_text public_pipeline offline_world initial_state
            (JStr (replicate 100 CHR ''a'')) 50)
       = Inr (JStr (replicate 50 CHR ''a'' @ ''...''))"
proof -
  have h1: "(50 :: int) < int (length (replicate 100 CHR ''a''))"
    by simp
  have h2: "summarization_failed
       (post offline_world (length (calls initial_state))
          (summarization_request public_pipeline (JStr (replicate 100 CHR ''a'')) 50))"
    by (simp add: offline_world_def sample_world_def summarization_failed_def)
  have "slice_to (replicate 100 CHR ''a'') 50 = replicate 50 CHR ''a''"
    by (simp add: slice_to_def)
  with summarize_text_failure_truncates [OF h1 h2] h1 h2 show ?thesis
    by simp
qed

section \<open>Embedder: one entry per phrase\<close>

lemma get_embeddings_body_calls:
  "calls (snd (get_embeddings_body p w s t)) = calls s @ [embedding_request p t]"
  by (simp add: get_embeddings_body_def requests_post_def np_random_rand_def
      split: http_outcome.splits option.splits json.splits list.splits)

lemma np_random_rand_is_vector: "is_vector n (fst (np_random_rand w s n))"
  by (simp add: np_random_rand_def is_vector_def is_number_def list_all_iff)

lemma get_embeddings_body_failed:
  assumes "embedding_call_failed (post w (length (calls s)) (embedding_request p t))"
  shows "is_vector 384 (fst (get_embeddings_body p w s t))"
  using assms
  by (auto simp: get_embeddings_body_def requests_post_def embedding_call_failed_def
      np_random_rand_is_vector
      split: http_outcome.splits option.splits json.splits list.splits if_splits)


lemma get_embeddings_loop_length:
  "length (fst (get_embeddings_loop p w s ts acc)) = length acc + length ts"
  by (induction ts arbitrary: s acc) (auto split: prod.splits)

lemma get_embeddings_loop_prefix:
  "\<exists>ys. fst (get_embeddings_loop p w s ts acc) = acc @ ys"
proof (induction ts arbitrary: s acc)
  case Nil
  then show ?case by simp
next
  case (Cons t ts)
  obtain entry s1 where body: "get_embeddings_body p w s t = (entry, s1)"
    by (cases "get_embeddings_body p w s t")
  from Cons.IH [of s1 "acc @ [entry]"] obtain ys
    where "fst (get_embeddings_loop p w s1 ts (acc @ [entry])) = (acc @ [entry]) @ ys"
    by blast
  with body show ?case by simp
qed

text \<open>The entry at index \<open>i\<close> is what the loop body makes of phrase \<open>i\<close>, in a state
  whose trace holds the \<open>i\<close> earlier calls.\<close>

lemma get_embeddings_loop_nth:
  assumes "i < length ts"
  shows "\<exists>s'. length (calls s') = length (calls s) + i
            \<and> fst (get_embeddings_loop p w s ts acc) ! (length acc + i)
                = fst (get_embeddings_body p w s' (ts ! i))"
  using assms
proof (induction ts arbitrary: s acc i)
  case Nil
  then show ?case by simp
next
  case (Cons t ts)
  obtain entry s1 where body: "get_embeddings_body p w s t = (entry, s1)"
    by (cases "get_embeddings_body p w s t")
  have calls1: "length (calls s1) = Suc (length (calls s))"
    using get_embeddings_body_calls [of p w s t] body by simp
  show ?case
  proof (cases i)
    case 0
    have "fst (get_embeddings_loop p w s1 ts (acc @ [entry])) ! length acc = entry"
      using get_embeddings_loop_prefix [of p w s1 ts "acc @ [entry]"]
      by (auto simp: nth_append)
    with 0 body show ?thesis
      by (intro exI [of _ s]) simp
  next
    case (Suc j)
    with Cons.prems have "j < length ts" by simp
    from Cons.IH [OF this, of s1 "acc @ [entry]"] obtain s'
      where "length (calls s') = length (calls s1) + j"
        and "fst (get_embeddings_loop p w s1 ts (acc @ [entry])) ! (length (acc @ [entry]) + j)
               = fst (get_embeddings_body p w s' (ts ! j))"
      by blast
    with Suc body calls1 show ?thesis
      by (intro exI [of _ s']) simp
  qed
qed

text \<open>The loop itself keeps the batch whole: it appends one entry per phrase, and the
  entry of a phrase whose call failed is a synthetic vector of 384 numbers.\<close>

lemma get_embeddings_loop_aligned:
  "length (fst (get_embeddings_loop p w s texts [])) = length texts
   \<and> (\<forall>i < length texts.
         embedding_call_failed
           (post w (length (calls s) + i) (embedding_request p (texts ! i)))
         \<longrightarrow> is_vector 384 (fst (get_embeddings_loop p w s texts []) ! i))"
proof (intro conjI allI impI)
  show "length (fst (get_embeddings_loop p w s texts [])) = length texts"
    by (simp add: get_embeddings_loop_length)
next
  fix i
  assume i: "i < length texts"
    and failed: "embedding_call_failed
           (post w (length (calls s) + i) (embedding_request p (texts ! i)))"
  from get_embeddings_loop_nth [OF i, of s p w "[]"] obtain s'
    where s': "length (calls s') = length (calls s) + i"
      and entry: "fst (get_embeddings_loop p w s texts []) ! i
                    = fst (get_embeddings_body p w s' (texts ! i))"
    by auto
  from failed s' have "is_vector 384 (fst (get_embeddings_body p w s' (texts ! i)))"
    by (intro get_embeddings_body_failed) simp
  with entry show "is_vector 384 (fst (get_embeddings_loop p w s texts []) ! i)"
    by simp
qed


lemma shape_number: "is_number y \<Longrightarrow> shape y = Some []"
  by (cases y) (simp_all add: is_number_def)

lemma shape_numbers: "list_all is_number xs \<Longrightarrow> shape (JList xs) = Some [length xs]"
proof (cases xs)
  case Nil
  then show ?thesis by simp
next
  case (Cons x xs')
  assume "list_all is_number xs"
  with Cons have x: "shape x = Some []" and rest: "list_all is_number xs'"
    by (simp_all add: shape_number)
  from rest have "list_all (\<lambda>y. shape y = Some []) xs'"
    by (simp add: list_all_iff shape_number)
  with x Cons show ?thesis by simp
qed

lemma shape_number_map: "shape (JList (map (\<lambda>i. JNum (f i)) xs)) = Some [length xs]"
  using shape_numbers [of "map (\<lambda>i. JNum (f i)) xs"]
  by (simp add: list_all_iff is_number_def)

lemma shape_is_vector: "is_vector n v \<Longrightarrow> shape v = Some [n]"
  by (auto simp: is_vector_def shape_numbers split: json.splits)

lemma replicate_384: "replicate 384 x = x # replicate 383 x"
proof -
  have "replicate (Suc 383) x = x # replicate 383 x"
    by (rule replicate_Suc)
  then show ?thesis by simp
qed

text \<open>
  Claim C2 does not hold of the code. The loop of \<^verbatim>\<open>get_embeddings\<close> appends one entry
  per phrase, a synthetic vector of 384 numbers for a failed call, but the conversion
  \<^verbatim>\<open>np.array(embeddings)\<close> after the loop raises when the entries disagree in shape.
  For two phrases, the first call answering 200 with a flat vector of 384 numbers (one of
  the two well-formed shapes) and the second call raising, the entries are the number
  \<open>0.5\<close> and a synthetic vector, and \<^verbatim>\<open>get_embeddings\<close> raises \<^verbatim>\<open>ValueError\<close>: the
  batch is aborted.
\<close>

theorem get_embeddings_ragged_batch:
  "well_formed_embedding_body (JList (replicate 384 (JNum 0.5)))
   \<and> post (sample_world flat_then_down) 1 (embedding_request public_pipeline ''beta'') = Raised
   \<and> length (fst (get_embeddings_loop public_pipeline (sample_world flat_then_down)
                 initial_state [''alpha'', ''beta''] [])) = 2
   \<and> fst (get_embeddings_loop public_pipeline (sample_world flat_then_down)
            initial_state [''alpha'', ''beta''] []) ! 0 = JNum 0.5
   \<and> is_vector 384
        (fst (get_embeddings_loop public_pipeline (sample_world flat_then_down)
                initial_state [''alpha'', ''beta''] []) ! 1)
   \<and> fst (get_embeddings public_pipeline (sample_world flat_then_down)
            initial_state [''alpha'', ''beta'']) = Inl ValueError"
proof -
  let ?v = "fst (np_random_rand (sample_world flat_then_down)
               (initial_state\<lparr>calls := [embedding_request public_pipeline ''alpha'',
                                        embedding_request public_pipeline ''beta'']\<rparr>) 384)"
  have wf: "well_formed_embedding_body (JList (replicate 384 (JNum 0.5)))"
    by (simp add: well_formed_embedding_body_def is_vector_def is_number_def list_all_iff)
  have failed: "post (sample_world flat_then_down) 1
                  (embedding_request public_pipeline ''beta'') = Raised"
    by (simp add: sample_world_def flat_then_down_def)
  have first: "get_embeddings_body public_pipeline (sample_world flat_then_down)
                 initial_state ''alpha''
               = (JNum 0.5,
                  initial_state\<lparr>calls := [embedding_request public_pipeline ''alpha'']\<rparr>)"
    unfolding get_embeddings_body_def requests_post_def
    by (simp add: sample_world_def flat_then_down_def initial_state_def replicate_384)
  have second: "fst (get_embeddings_body public_pipeline (sample_world flat_then_down)
                 (initial_state\<lparr>calls := [embedding_request public_pipeline ''alpha'']\<rparr>)
                 ''beta'') = ?v"
    unfolding get_embeddings_body_def requests_post_def
    by (simp add: sample_world_def flat_then_down_def initial_state_def)
  from second obtain s2
    where second': "get_embeddings_body public_pipeline (sample_world flat_then_down)
                 (initial_state\<lparr>calls := [embedding_request public_pipeline ''alpha'']\<rparr>)
                 ''beta'' = (?v, s2)"
    by (cases "get_embeddings_body public_pipeline (sample_world flat_then_down)
                 (initial_state\<lparr>calls := [embedding_request public_pipeline ''alpha'']\<rparr>)
                 ''beta''") simp
  have rows: "fst (get_embeddings_loop public_pipeline (sample_world flat_then_down)
                initial_state [''alpha'', ''beta''] []) = [JNum 0.5, ?v]"
    by (simp add: first second')
  have v: "is_vector 384 ?v"
    by (rule np_random_rand_is_vector)
  then have "shape ?v = Some [384]"
    by (rule shape_is_vector)
  then have "np_array [JNum 0.5, ?v] = Inl ValueError"
    by (simp add: np_array_def)
  with rows have "fst (get_embeddings public_pipeline (sample_world flat_then_down)
            initial_state [''alpha'', ''beta'']) = Inl ValueError"
    by (simp add: get_embeddings_def split: prod.splits)
  with wf failed rows v show ?thesis
    by simp
qed

section \<open>Embedder: which responses are used\<close>




section \<open>Clusterer\<close>

text \<open>
  Claim C4. For every non-empty embedding list of length \<open>N\<close>, when no cluster count is
  supplied, the cluster count \<open>k\<close> that \<^verbatim>\<open>cluster_embeddings\<close> returns satisfies
  \<open>1 \<le> k \<le> min(10, N)\<close> and \<open>k \<le> N\<close>; it is the count handed to the clustering call.
\<close>

theorem cluster_count_bounds:
  assumes "embeddings \<noteq> []"
    and "cluster_embeddings w embeddings None = Inr (cluster_labels, k)"
  shows "1 \<le> k \<and> k \<le> min 10 (int (length embeddings)) \<and> k \<le> int (length embeddings)
         \<and> KMeans_fit_predict w k embeddings = Inr cluster_labels"
proof -
  define len where "len = int (length embeddings)"
  define n1 where "n1 = max 2 (min (min 10 (max 2 (len div 2))) len)"
  define n2 where "n2 = (if len < n1 then len else n1)"
  have unfolded: "cluster_embeddings w embeddings None =
      (case KMeans_fit_predict w n2 embeddings of
         Inl e \<Rightarrow> Inl e
       | Inr cluster_labels \<Rightarrow> Inr (cluster_labels, n2))"
    unfolding cluster_embeddings_def Let_def len_def n1_def n2_def option.case
    by (rule refl)
  from assms(2) have k: "k = n2" and km: "KMeans_fit_predict w n2 embeddings = Inr cluster_labels"
    unfolding unfolded by (simp_all split: sum.splits)
  from assms(1) have pos: "1 \<le> len"
    by (cases embeddings) (simp_all add: len_def)
  have "1 \<le> n2 \<and> n2 \<le> min 10 len \<and> n2 \<le> len"
    using pos unfolding n2_def n1_def by (simp add: min_def max_def)
  with k km show ?thesis
    by (simp add: len_def)
qed

text \<open>Three points: two clusters.\<close>

theorem cluster_count_bounds_witness:
  "[JList [JNum 1], JList [JNum 2], JList [JNum 3]] \<noteq> []
   \<and> cluster_embeddings offline_world [JList [JNum 1], JList [JNum 2], JList [JNum 3]] None
       = Inr ([0, 1, 0], 2)
   \<and> (1 :: int) \<le> 2
   \<and> (2 :: int) \<le> min 10 (int (length [JList [JNum 1], JList [JNum 2], JList [JNum 3]]))
   \<and> (2 :: int) \<le> int (length [JList [JNum 1], JList [JNum 2], JList [JNum 3]])"
proof -
  have h1: "[JList [JNum 1], JList [JNum 2], JList [JNum 3]] \<noteq> []"
    by simp
  have h2: "cluster_embeddings offline_world
              [JList [JNum 1], JList [JNum 2], JList [JNum 3]] None = Inr ([0, 1, 0], 2)"
    by (simp add: cluster_embeddings_def offline_world_def sample_world_def
        sample_fit_predict_def upt_rec [of 0 3] upt_rec [of 1 3] upt_rec [of 2 3])
  from cluster_count_bounds [OF h1 h2] h1 h2 show ?thesis
    by simp
qed

text \<open>
  Claim C5 does not hold of the code. With no embeddings and no cluster count supplied,
  \<^verbatim>\<open>cluster_embeddings\<close> has no special case: it computes the count 0 and issues the
  clustering call with it, and its result is whatever that call does (scikit-learn rejects
  a count below one, so the step raises).
\<close>

theorem cluster_embeddings_empty:
  "cluster_embeddings w [] None =
     (case KMeans_fit_predict w 0 [] of
        Inl e \<Rightarrow> Inl e
      | Inr cluster_labels \<Rightarrow> Inr (cluster_labels, 0))
   \<and> cluster_embeddings offline_world [] None = Inl ValueError"
  by (simp add: cluster_embeddings_def offline_world_def sample_world_def
      sample_fit_predict_def)

section \<open>Labeler\<close>

lemma classify_loop_calls:
  "calls (snd (classify_loop p w s i ts acc)) = calls s @ map (classification_request p) ts"
  by (induction ts arbitrary: s i acc) (auto simp: requests_post_def split: sum.splits)

text \<open>
  Claim C10. The \<^verbatim>\<open>cluster_labels\<close> argument of \<^verbatim>\<open>classify_clusters\<close> has no effect:
  for the same representative texts and the same outcomes of the remote calls, any two
  values of it give the same result. The candidate labels sent with every request are the
  15 hardcoded topic names.
\<close>

theorem classify_clusters_ignores_cluster_labels:
  "classify_clusters p w s cluster_texts labels1 = classify_clusters p w s cluster_texts labels2
   \<and> map req_json (drop (length (calls s))
         (calls (snd (classify_clusters p w s cluster_texts labels1))))
       = map (\<lambda>t. JDict [(''inputs'', JStr t),
                (''parameters'', JDict [(''candidate_labels'',
                   JList (map JStr
                     [''Business'', ''Technology'', ''Marketing'', ''Finance'', ''Education'',
                      ''Health'', ''Entertainment'', ''Travel'', ''Food'', ''Sports'',
                      ''Science'', ''Art'', ''Music'', ''Politics'', ''Environment'']))])])
           cluster_texts
   \<and> length candidate_labels = 15"
  by (simp add: classify_clusters_def classify_loop_calls classification_request_def
      candidate_labels_def)

section \<open>TreeAssembler: the order of the child nodes\<close>

lemma dict_append_keys:
  "map fst (dict_append eq d k v) =
     (if list_ex (\<lambda>y. eq y k) (map fst d) then map fst d else map fst d @ [k])"
  by (induction d) (fastforce simp: list_ex_iff)+

lemma group_clusters_foldl_keys:
  "map fst (foldl (\<lambda>clusters (t, cluster_id). dict_append (=) clusters cluster_id t) d zs)
     = first_seen_by (=) (map fst d) (map snd zs)"
  by (induction zs arbitrary: d) (auto simp: dict_append_keys)

lemma group_clusters_keys:
  "map fst (group_clusters texts cluster_labels)
     = first_seen_by (=) [] (take (length texts) cluster_labels)"
  by (simp add: group_clusters_def group_clusters_foldl_keys map_snd_zip_take min_def)

lemma group_entities_keys:
  "group_entities es d = Inr g \<Longrightarrow>
     map fst g = first_seen_by key_eq (map fst d) (map entity_label es)"
  by (induction es arbitrary: d) (auto simp: dict_append_keys split: if_splits)

lemma entity_nodes_names:
  "map node_name (entity_nodes w g)
     = map (\<lambda>l. JStr (''Entities ('' @ format_value w l @ '')'')) (map fst g)"
  by (induction g) (auto simp: entity_nodes_def)

lemma summarize_text_short:
  "py_len v = Inr n \<Longrightarrow> n \<le> m \<Longrightarrow> summarize_text p w s v m = (Inr v, s)"
  by (simp add: summarize_text_def)

lemma cluster_children_loop_derived:
  "cluster_children_loop p w s ts acc = (Inr cc, s') \<Longrightarrow>
     \<exists>new. cc = acc @ new
        \<and> list_all2 (\<lambda>child t. \<exists>s1 s2. summarize_text p w s1 (JStr t) 50 = (Inr child, s2))
             new ts"
proof (induction ts arbitrary: s acc)
  case Nil
  then show ?case by simp
next
  case (Cons t ts)
  show ?case
  proof (cases "int (length t) > 50")
    case True
    with Cons.prems obtain r s1
      where sum: "summarize_text p w s (JStr t) 50 = (Inr r, s1)"
        and rest: "cluster_children_loop p w s1 ts (acc @ [r]) = (Inr cc, s')"
      by (auto split: prod.splits sum.splits)
    from Cons.IH [OF rest] obtain new
      where "cc = (acc @ [r]) @ new"
        and "list_all2 (\<lambda>child t. \<exists>s1 s2. summarize_text p w s1 (JStr t) 50 = (Inr child, s2))
               new ts"
      by blast
    with sum show ?thesis
      by (intro exI [of _ "r # new"]) auto
  next
    case False
    with Cons.prems
    have rest: "cluster_children_loop p w s ts (acc @ [JStr t]) = (Inr cc, s')"
      by simp
    from False have "summarize_text p w s (JStr t) 50 = (Inr (JStr t), s)"
      by (intro summarize_text_short [where n = "int (length t)"]) (simp_all add: py_len_def)
    moreover from Cons.IH [OF rest] obtain new
      where "cc = (acc @ [JStr t]) @ new"
        and "list_all2 (\<lambda>child t. \<exists>s1 s2. summarize_text p w s1 (JStr t) 50 = (Inr child, s2))
               new ts"
      by blast
    ultimately show ?thesis
      by (intro exI [of _ "JStr t # new"]) auto
  qed
qed

text \<open>The loop over \<^verbatim>\<open>clusters.items()\<close> appends one node for every item whose
  cluster id is below the number of labels, in the order of the items.\<close>

lemma merge_clusters_loop_derived:
  "merge_clusters_loop p w s cl items acc = (Inr nodes, s') \<Longrightarrow>
     \<exists>new. nodes = acc @ new
        \<and> list_all2 (node_of_cluster p w cl) new
             (filter (\<lambda>item. fst item < int (length cl)) items)"
proof (induction items arbitrary: s acc)
  case Nil
  then show ?case by simp
next
  case (Cons item items)
  obtain cluster_id cluster_texts where item: "item = (cluster_id, cluster_texts)"
    by (cases item)
  show ?case
  proof (cases "cluster_id < int (length cl)")
    case False
    with Cons.prems item have "merge_clusters_loop p w s cl items acc = (Inr nodes, s')"
      by simp
    from Cons.IH [OF this] False item show ?thesis
      by simp
  next
    case True
    with Cons.prems item obtain l n name s1 cc s2
      where l: "py_index cl cluster_id = Inr l"
        and n: "py_len l = Inr n"
        and name: "(if n > 30 then summarize_text p w s l 30 else (Inr l, s)) = (Inr name, s1)"
        and cc: "cluster_children_loop p w s1 (take 5 cluster_texts) [] = (Inr cc, s2)"
        and rest: "merge_clusters_loop p w s2 cl items
                     (acc @ [\<lparr>node_name = name, node_children = cc\<rparr>]) = (Inr nodes, s')"
      by (auto split: prod.splits sum.splits)
    have "summarize_text p w s l 30 = (Inr name, s1)"
    proof (cases "n > 30")
      case True
      with name show ?thesis by simp
    next
      case False
      with name n summarize_text_short [of l n 30 p w s] show ?thesis by simp
    qed
    moreover from cluster_children_loop_derived [OF cc]
    have "list_all2 (\<lambda>child t. \<exists>s1 s2. summarize_text p w s1 (JStr t) 50 = (Inr child, s2))
            cc (take 5 cluster_texts)"
      by simp
    ultimately have nd: "node_of_cluster p w cl \<lparr>node_name = name, node_children = cc\<rparr> item"
      using l item by (auto simp: node_of_cluster_def)
    from Cons.IH [OF rest] obtain new
      where "nodes = (acc @ [\<lparr>node_name = name, node_children = cc\<rparr>]) @ new"
        and "list_all2 (node_of_cluster p w cl) new
               (filter (\<lambda>item. fst item < int (length cl)) items)"
      by blast
    with nd True item show ?thesis
      by (intro exI [of _ "\<lparr>node_name = name, node_children = cc\<rparr> # new"]) auto
  qed
qed

text \<open>
  Claim C6, as the specification states it, fails: when the first phrase belongs to
  cluster 1 and the second to cluster 0, the node of cluster 1 (named by the label at
  index 1) comes before the node of cluster 0. The cluster ids are met in the order
  \<open>[1, 0]\<close>, which is not ascending.
\<close>

theorem merge_results_order_counterexample:
  "map fst (group_clusters [''alpha'', ''beta''] [1, 0]) = [1, 0]
   \<and> \<not> sorted [1 :: int, 0]
   \<and> fst (merge_results public_pipeline offline_world initial_state
            [''alpha'', ''beta''] [1, 0] [JStr ''Business'', JStr ''Travel''] [])
       = Inr \<lparr>root = ''Mind Map'',
               children =
                 [\<lparr>node_name = JStr ''Travel'', node_children = [JStr ''alpha'']\<rparr>,
                  \<lparr>node_name = JStr ''Business'', node_children = [JStr ''beta'']\<rparr>],
               generated_at = None, source_text_length = None,
               ai_processed = None, fallback_mode = None\<rparr>"
  by (simp add: merge_results_def group_clusters_def py_index_def py_len_def entity_nodes_def)

text \<open>
  Claim C6, amended. In the document produced by \<^verbatim>\<open>merge_results\<close>, the child nodes made
  from clusters appear in the order in which the cluster ids are first met in the cluster
  assignment (one node for every such id that is below the number of labels), and the
  entity nodes come after all of them, in the order in which the entity categories are
  first met in the entity list.
\<close>

theorem merge_results_order:
  assumes "merge_results p w s texts cluster_labels classified_labels entities = (Inr doc, s')"
  shows "\<exists>cluster_nodes entity_clusters.
           children doc = cluster_nodes @ entity_nodes w entity_clusters
         \<and> list_all2 (node_of_cluster p w classified_labels) cluster_nodes
             (filter (\<lambda>item. fst item < int (length classified_labels))
                (group_clusters texts cluster_labels))
         \<and> map fst (group_clusters texts cluster_labels)
             = first_seen_by (=) [] (take (length texts) cluster_labels)
         \<and> map node_name (entity_nodes w entity_clusters)
             = map (\<lambda>l. JStr (''Entities ('' @ format_value w l @ '')''))
                 (first_seen_by key_eq [] (map entity_label entities))"
proof -
  from assms obtain nodes g
    where loop: "merge_clusters_loop p w s classified_labels
                   (group_clusters texts cluster_labels) [] = (Inr nodes, s')"
      and g: "(if entities \<noteq> [] then group_entities entities [] else Inr []) = Inr g"
      and doc: "children doc = nodes @ entity_nodes w g"
    by (auto simp: merge_results_def split: prod.splits sum.splits)
  from g have "group_entities entities [] = Inr g"
    by (cases entities) (simp_all split: if_splits)
  from group_entities_keys [OF this]
  have keys: "map fst g = first_seen_by key_eq [] (map entity_label entities)"
    by simp
  from merge_clusters_loop_derived [OF loop]
  have "list_all2 (node_of_cluster p w classified_labels) nodes
          (filter (\<lambda>item. fst item < int (length classified_labels))
             (group_clusters texts cluster_labels))"
    by simp
  with doc keys show ?thesis
    by (intro exI [of _ nodes] exI [of _ g]) (simp add: group_clusters_keys entity_nodes_names)
qed

text \<open>Three phrases in the clusters 1, 0, 1 and three entities of the categories
  LOC, PER, LOC.\<close>

theorem merge_results_order_witness:
  "merge_results public_pipeline offline_world initial_state
     [''alpha'', ''beta'', ''gamma''] [1, 0, 1] [JStr ''Business'', JStr ''Travel'']
     sample_entities
   = (Inr \<lparr>root = ''Mind Map'',
            children =
              [\<lparr>node_name = JStr ''Travel'', node_children = [JStr ''alpha'', JStr ''gamma'']\<rparr>,
               \<lparr>node_name = JStr ''Business'', node_children = [JStr ''beta'']\<rparr>,
               \<lparr>node_name = JStr ''Entities (LOC)'',
                node_children = [JStr ''Paris'', JStr ''Rome'']\<rparr>,
               \<lparr>node_name = JStr ''Entities (PER)'', node_children = [JStr ''Ada'']\<rparr>],
            generated_at = None, source_text_length = None,
            ai_processed = None, fallback_mode = None\<rparr>, initial_state)
   \<and> (\<exists>cluster_nodes entity_clusters.
          [\<lparr>node_name = JStr ''Travel'', node_children = [JStr ''alpha'', JStr ''gamma'']\<rparr>,
           \<lparr>node_name = JStr ''Business'', node_children = [JStr ''beta'']\<rparr>,
           \<lparr>node_name = JStr ''Entities (LOC)'', node_children = [JStr ''Paris'', JStr ''Rome'']\<rparr>,
           \<lparr>node_name = JStr ''Entities (PER)'', node_children = [JStr ''Ada'']\<rparr>]
            = cluster_nodes @ entity_nodes offline_world entity_clusters
        \<and> list_all2 (node_of_cluster public_pipeline offline_world
                       [JStr ''Business'', JStr ''Travel'']) cluster_nodes
             (filter (\<lambda>item. fst item < int (length [JStr ''Business'', JStr ''Travel'']))
                (group_clusters [''alpha'', ''beta'', ''gamma''] [1, 0, 1]))
        \<and> map fst (group_clusters [''alpha'', ''beta'', ''gamma''] [1, 0, 1]) = [1, 0]
        \<and> map node_name (entity_nodes offline_world entity_clusters)
            = [JStr ''Entities (LOC)'', JStr ''Entities (PER)''])"
proof -
  have run: "merge_results public_pipeline offline_world initial_state
     [''alpha'', ''beta'', ''gamma''] [1, 0, 1] [JStr ''Business'', JStr ''Travel'']
     sample_entities
   = (Inr \<lparr>root = ''Mind Map'',
            children =
              [\<lparr>node_name = JStr ''Travel'', node_children = [JStr ''alpha'', JStr ''gamma'']\<rparr>,
               \<lparr>node_name = JStr ''Business'', node_children = [JStr ''beta'']\<rparr>,
               \<lparr>node_name = JStr ''Entities (LOC)'',
                node_children = [JStr ''Paris'', JStr ''Rome'']\<rparr>,
               \<lparr>node_name = JStr ''Entities (PER)'', node_children = [JStr ''Ada'']\<rparr>],
            generated_at = None, source_text_length = None,
            ai_processed = None, fallback_mode = None\<rparr>, initial_state)"
    by (simp add: merge_results_def group_clusters_def py_index_def py_len_def
        entity_nodes_def sample_entities_def hashable_def key_eq_def as_number_def
        format_value_def)
  have seen: "first_seen_by (=) [] (take (length [''alpha'', ''beta'', ''gamma'']) [1 :: int, 0, 1])
                = [1, 0]"
    by simp
  have cats: "map (\<lambda>l. JStr (''Entities ('' @ format_value offline_world l @ '')''))
                (first_seen_by key_eq [] (map entity_label sample_entities))
                = [JStr ''Entities (LOC)'', JStr ''Entities (PER)'']"
    by (simp add: sample_entities_def key_eq_def as_number_def format_value_def)
  from merge_results_order [OF run] show ?thesis
    unfolding seen cats using run by simp
qed

section \<open>The pipeline entry point\<close>

lemma save_mindmap_None: "save_mindmap w s None m = (Inl TypeError, s)"
  by (simp add: save_mindmap_def)

text \<open>With no output file the last step of \<^verbatim>\<open>process_text\<close> raises, unless an earlier
  step already did.\<close>

lemma process_text_None_raises:
  "\<exists>e. fst (process_text p w s t None) = Inl e"
  by (simp add: process_text_def save_mindmap_None Let_def split: prod.splits sum.splits)

lemma merge_results_root:
  "merge_results p w s texts cluster_labels classified_labels entities = (Inr m, s')
   \<Longrightarrow> root m = ''Mind Map''"
  by (auto simp: merge_results_def split: prod.splits sum.splits if_splits)

lemma process_text_root:
  "process_text p w s t output_file = (Inr m, s') \<Longrightarrow> root m = ''Mind Map''"
  by (auto simp: process_text_def Let_def split: prod.splits sum.splits
      dest: merge_results_root)

lemma preprocess_text_dots: "preprocess_text ''...'' = []"
  by (simp add: preprocess_text_def strip_def is_space_def match_terminators_def
      is_terminator_def)

text \<open>
  Claim C1. For every input text and every behaviour of the remote calls,
  \<^verbatim>\<open>process_text_to_mindmap\<close> returns a document (with root \<open>Mind Map\<close>) and never
  raises; whenever the pipeline raises an exception, the result is the local fallback
  document, which carries \<^verbatim>\<open>ai_processed = False\<close>.
\<close>

theorem process_text_to_mindmap_never_raises:
  "(\<exists>doc. fst (process_text_to_mindmap p w s t) = Inr doc \<and> root doc = ''Mind Map'')
   \<and> (\<forall>e. fst (process_text p w s t None) = Inl e \<longrightarrow>
          fst (process_text_to_mindmap p w s t) = Inr (create_fallback_mindmap w t)
          \<and> ai_processed (create_fallback_mindmap w t) = Some False)"
proof (intro conjI allI impI)
  obtain r s' where r: "process_text p w s t None = (r, s')"
    by (cases "process_text p w s t None")
  show "\<exists>doc. fst (process_text_to_mindmap p w s t) = Inr doc \<and> root doc = ''Mind Map''"
  proof (cases r)
    case (Inl e)
    with r show ?thesis
      by (simp add: process_text_to_mindmap_def create_fallback_mindmap_def Let_def)
  next
    case (Inr m)
    with r process_text_root [of p w s t None m s'] show ?thesis
      by (simp add: process_text_to_mindmap_def)
  qed
next
  fix e assume "fst (process_text p w s t None) = Inl e"
  then show "fst (process_text_to_mindmap p w s t) = Inr (create_fallback_mindmap w t)"
    by (cases "process_text p w s t None") (simp add: process_text_to_mindmap_def)
next
  show "ai_processed (create_fallback_mindmap w t) = Some False"
    by (simp add: create_fallback_mindmap_def Let_def)
qed

text \<open>The text \<^verbatim>\<open>"..."\<close> has no phrase; the clustering call of the sample world
  rejects zero clusters, and the service answers with the fallback document.\<close>

theorem process_text_to_mindmap_never_raises_witness:
  "fst (process_text public_pipeline offline_world initial_state ''...'' None) = Inl ValueError
   \<and> fst (process_text_to_mindmap public_pipeline offline_world initial_state ''...'')
       = Inr (create_fallback_mindmap offline_world ''...'')
   \<and> ai_processed (create_fallback_mindmap offline_world ''...'') = Some False
   \<and> children (create_fallback_mindmap offline_world ''...'') = []"
proof -
  have raised: "fst (process_text public_pipeline offline_world initial_state ''...'' None)
                  = Inl ValueError"
    by (simp add: process_text_def preprocess_text_dots get_embeddings_def np_array_def
        cluster_embeddings_def offline_world_def sample_world_def sample_fit_predict_def)
  have empty: "children (create_fallback_mindmap offline_world ''...'') = []"
    by (simp add: create_fallback_mindmap_def strip_def range_step_def)
  from process_text_to_mindmap_never_raises
         [of public_pipeline offline_world initial_state "''...''"]
  have "\<forall>e. fst (process_text public_pipeline offline_world initial_state ''...'' None) = Inl e
          \<longrightarrow> fst (process_text_to_mindmap public_pipeline offline_world initial_state ''...'')
                = Inr (create_fallback_mindmap offline_world ''...'')
              \<and> ai_processed (create_fallback_mindmap offline_world ''...'') = Some False"
    by (rule conjunct2)
  with raised empty show ?thesis
    by blast
qed

text \<open>One short sentence in the sample world, where every remote call raises: with an
  output path the pipeline returns its document, with \<^verbatim>\<open>output_file=None\<close> the same
  run ends in the \<^verbatim>\<open>TypeError\<close> of \<^verbatim>\<open>open\<close>.\<close>

lemma preprocess_text_sample: "preprocess_text ''Plan the launch.'' = [''Plan the launch'']"
  by (simp add: preprocess_text_def strip_def is_space_def match_terminators_def
      is_terminator_def match_separator_def)

lemma process_text_sample_saved:
  "fst (process_text public_pipeline offline_world initial_state ''Plan the launch.''
         (Some ''out.json''))
     = Inr \<lparr>root = ''Mind Map'',
             children = [\<lparr>node_name = JStr ''Cluster 1'',
                          node_children = [JStr ''Plan the launch'']\<rparr>],
             generated_at = None, source_text_length = None,
             ai_processed = None, fallback_mode = None\<rparr>"
  by (simp add: process_text_def preprocess_text_sample get_embeddings_def
      get_embeddings_body_def requests_post_def np_random_rand_def np_array_def
      shape_number_map cluster_embeddings_def
      offline_world_def sample_world_def sample_fit_predict_def initial_state_def
      py_index_def classify_clusters_def classify_try_def fallback_label_def str_int_def
      digit_def extract_entities_def merge_results_def group_clusters_def py_len_def
      entity_nodes_def save_mindmap_def)

lemma process_text_sample_None:
  "fst (process_text public_pipeline offline_world initial_state ''Plan the launch.'' None)
     = Inl TypeError"
  by (simp add: process_text_def preprocess_text_sample get_embeddings_def
      get_embeddings_body_def requests_post_def np_random_rand_def np_array_def
      shape_number_map cluster_embeddings_def
      offline_world_def sample_world_def sample_fit_predict_def initial_state_def
      py_index_def classify_clusters_def classify_try_def fallback_label_def str_int_def
      digit_def extract_entities_def merge_results_def group_clusters_def py_len_def
      entity_nodes_def save_mindmap_def)

text \<open>
  Claim C3. For every input text, \<^verbatim>\<open>process_text_to_mindmap\<close> returns the fallback
  document, with \<^verbatim>\<open>ai_processed = False\<close> and \<^verbatim>\<open>fallback_mode = True\<close>: the service
  calls \<^verbatim>\<open>process_text\<close> with \<^verbatim>\<open>output_file=None\<close>, which always ends in an exception
  (at the latest when it opens the output file, which raises for a \<^verbatim>\<open>None\<close> path), and
  the catch-all handler of the service returns \<^verbatim>\<open>_create_fallback_mindmap\<close>. The path
  with \<^verbatim>\<open>ai_processed = True\<close> is never taken.
\<close>

theorem process_text_to_mindmap_always_fallback:
  "fst (process_text_to_mindmap p w s t) = Inr (create_fallback_mindmap w t)
   \<and> ai_processed (create_fallback_mindmap w t) = Some False
   \<and> fallback_mode (create_fallback_mindmap w t) = Some True
   \<and> (\<exists>e. fst (process_text p w s t None) = Inl e)
   \<and> (\<forall>s4 m. save_mindmap w s4 None m = (Inl TypeError, s4))
   \<and> (\<exists>doc. fst (process_text_to_mindmap p w s t) = Inr doc \<and> ai_processed doc \<noteq> Some True)"
proof -
  from process_text_None_raises [of p w s t] obtain e
    where e: "fst (process_text p w s t None) = Inl e" by blast
  then have "fst (process_text_to_mindmap p w s t) = Inr (create_fallback_mindmap w t)"
    by (cases "process_text p w s t None") (simp add: process_text_to_mindmap_def)
  with e show ?thesis
    by (simp add: create_fallback_mindmap_def save_mindmap_None Let_def)
qed

section \<open>The fallback document\<close>

text \<open>
  Claim C7 does not hold of the code. The fallback cuts the sentence list into chunks of
  \<open>max(1, len(sentences) // 3)\<close> sentences, which gives three chunks only when the number
  of sentences is a positive multiple of three: four sentences give four topics, where the
  claim (and the comment \<^verbatim>\<open># Create 3 clusters\<close> beside the chunk size) says three.
\<close>

theorem create_fallback_mindmap_four_sentences:
  "children (create_fallback_mindmap w ''a.b.c.d'') =
     [\<lparr>node_name = JStr ''Topic 1'', node_children = [JStr ''a'']\<rparr>,
      \<lparr>node_name = JStr ''Topic 2'', node_children = [JStr ''b'']\<rparr>,
      \<lparr>node_name = JStr ''Topic 3'', node_children = [JStr ''c'']\<rparr>,
      \<lparr>node_name = JStr ''Topic 4'', node_children = [JStr ''d'']\<rparr>]
   \<and> length (children (create_fallback_mindmap w ''a.b.c.d'')) = 4"
  by (simp add: create_fallback_mindmap_def strip_def is_space_def range_step_def
      str_int_def digit_def Let_def upt_rec [of 0 4] upt_rec [of 1 4] upt_rec [of 2 4]
      upt_rec [of 3 4])

end
